theory Spec2Isabelle
  imports Main "HOL-Library.Word"
begin

section \<open>Data model of leds.c\<close>

text \<open>
  \<^verbatim>\<open>enum blink_rate_t\<close>: the first enumerator, \<open>BLINK_OFF\<close>, has the value 0, which is
  what a member left out of a designated initialiser gets.
\<close>

datatype blink_rate_t = BLINK_OFF | BLINK_SLOW | BLINK_MEDIUM | BLINK_FAST | BLINK_FRANTIC

text \<open>\<^verbatim>\<open>struct blink_item\<close>, the element type of the message queue.\<close>

record blink_item =
  rate :: blink_rate_t
  duration_ms :: "16 word"
  first_item :: bool
  sleep_ms :: "16 word"

text \<open>
  The build-time configuration. The Kconfig file is not part of the sources, so every
  \<^verbatim>\<open>CONFIG_*\<close> macro that leds.c reads is a parameter: the feature switches tested by
  \<^verbatim>\<open>IS_ENABLED\<close> are booleans, the Kconfig integers are \<open>int\<close>.
\<close>

record config =
  CONFIG_ZMK_BLE :: bool
  CONFIG_ZMK_SPLIT :: bool
  CONFIG_ZMK_SPLIT_ROLE_CENTRAL :: bool
  CONFIG_ZMK_BATTERY_REPORTING :: bool
  CONFIG_RGBLED_WIDGET_SHOW_LAYER_CHANGE :: bool
  CONFIG_RGBLED_WIDGET_OUTPUT_BLINK_MS :: int
  CONFIG_RGBLED_WIDGET_BATTERY_BLINK_MS :: int
  CONFIG_RGBLED_WIDGET_LAYER_BLINK_MS :: int
  CONFIG_RGBLED_WIDGET_INTERVAL_MS :: int
  CONFIG_RGBLED_WIDGET_BATTERY_LEVEL_HIGH :: int
  CONFIG_RGBLED_WIDGET_BATTERY_LEVEL_LOW :: int
  CONFIG_RGBLED_WIDGET_BATTERY_LEVEL_CRITICAL :: int

text \<open>
  What the other ZMK subsystems answer when leds.c queries them. The battery charge is
  read several times during boot: \<open>zmk_battery_state_of_charge e k\<close> is the answer to
  the \<open>k\<close>-th call, counted from 0.
\<close>

record zmk_env =
  zmk_ble_active_profile_is_connected :: bool
  zmk_ble_active_profile_is_open :: bool
  zmk_split_bt_peripheral_is_connected :: bool
  zmk_keymap_highest_layer_active :: "8 word"
  zmk_battery_state_of_charge :: "nat \<Rightarrow> 8 word"

text \<open>The payloads of the two events whose content the listeners read.\<close>

record zmk_battery_state_changed =
  state_of_charge :: "8 word"

record zmk_layer_state_changed =
  layer :: "8 word"
  state :: bool

text \<open>
  The calls into the LED driver and the kernel's sleep, in the order they are made, are
  the observable behaviour of the module.
\<close>

datatype call = LED_ON | LED_OFF | K_SLEEP int

text \<open>
  The state of the module: the file-scope flag \<open>initialized\<close>, the pending items of
  \<open>led_msgq\<close> (oldest first), the indicator light, and the log of driver and sleep
  calls made so far. The model runs one function of leds.c at a time, from any state;
  the calls of whichever function runs are added to the one log.
\<close>

record sys =
  initialized :: bool
  led_msgq :: "blink_item list"
  led :: bool
  calls :: "call list"

section \<open>The driver, the kernel sleep and the message queue\<close>

definition led_on :: "sys \<Rightarrow> sys" where
  "led_on s = s\<lparr>led := True, calls := calls s @ [LED_ON]\<rparr>"

definition led_off :: "sys \<Rightarrow> sys" where
  "led_off s = s\<lparr>led := False, calls := calls s @ [LED_OFF]\<rparr>"

text \<open>\<open>k_sleep ms\<close> stands for \<^verbatim>\<open>k_sleep(K_MSEC(ms))\<close>.\<close>

definition k_sleep :: "int \<Rightarrow> sys \<Rightarrow> sys" where
  "k_sleep ms s = s\<lparr>calls := calls s @ [K_SLEEP ms]\<rparr>"

text \<open>
  \<^verbatim>\<open>K_MSGQ_DEFINE(led_msgq, sizeof(struct blink_item), 16, 1)\<close>: the third argument is
  the capacity.
\<close>

definition led_msgq_max_msgs :: nat where
  "led_msgq_max_msgs = 16"

text \<open>
  Modelled from the spec: \<^verbatim>\<open>k_msgq_put\<close> is the Zephyr kernel's and is not in the
  sources. Every call in leds.c passes \<^verbatim>\<open>K_NO_WAIT\<close>, the spec's \<open>try_enqueue\<close>: it
  returns at once, \<open>True\<close> (return code 0) with the item appended when there is room,
  \<open>False\<close> with the queue as it was when it is full. leds.c ignores the result at every
  call.
\<close>

definition k_msgq_put :: "blink_item \<Rightarrow> sys \<Rightarrow> bool \<times> sys" where
  "k_msgq_put data s =
     (if length (led_msgq s) < led_msgq_max_msgs
      then (True, s\<lparr>led_msgq := led_msgq s @ [data]\<rparr>)
      else (False, s))"

text \<open>
  Modelled from the spec: \<^verbatim>\<open>k_msgq_get\<close> is the Zephyr kernel's and is not in the
  sources. The one call in leds.c passes \<^verbatim>\<open>K_FOREVER\<close>, the spec's
  \<open>dequeue_blocking\<close>: it takes the oldest item; on an empty queue it does not return,
  which is \<open>None\<close> here.
\<close>

definition k_msgq_get :: "sys \<Rightarrow> (blink_item \<times> sys) option" where
  "k_msgq_get s =
     (case led_msgq s of
        [] \<Rightarrow> None
      | data # rest \<Rightarrow> Some (data, s\<lparr>led_msgq := rest\<rparr>))"

section \<open>The renderer\<close>

text \<open>\<^verbatim>\<open>led_do_blink\<close>, leds.c lines 54 to 84.\<close>

fun led_do_blink :: "blink_rate_t \<Rightarrow> sys \<Rightarrow> sys" where
  "led_do_blink BLINK_OFF s = led_off s"
| "led_do_blink BLINK_SLOW s =
     (let s = led_on s; s = k_sleep 300 s; s = led_off s; s = k_sleep 300 s in s)"
| "led_do_blink BLINK_MEDIUM s =
     (let s = led_on s; s = k_sleep 150 s; s = led_off s; s = k_sleep 150 s in s)"
| "led_do_blink BLINK_FAST s =
     (let s = led_on s; s = k_sleep 80 s; s = led_off s; s = k_sleep 80 s in s)"
| "led_do_blink BLINK_FRANTIC s =
     (let s = led_on s; s = k_sleep 20 s; s = led_off s; s = k_sleep 20 s in s)"

text \<open>
  One pass through the body of the \<^verbatim>\<open>while (true)\<close> of \<^verbatim>\<open>led_process_thread\<close>, lines
  198 to 211. \<open>None\<close>: the thread is blocked in \<^verbatim>\<open>k_msgq_get\<close>.
\<close>

definition led_process_iteration :: "config \<Rightarrow> sys \<Rightarrow> sys option" where
  "led_process_iteration cfg s =
     (case k_msgq_get s of
        None \<Rightarrow> None
      | Some (blink, s) \<Rightarrow>
          (let s = led_do_blink (rate blink) s
           in if sleep_ms blink > 0
              then Some (k_sleep (uint (sleep_ms blink)) s)
              else Some (k_sleep (CONFIG_RGBLED_WIDGET_INTERVAL_MS cfg) s)))"

text \<open>
  \<^verbatim>\<open>led_process_thread\<close> never returns. With nobody else putting items, it runs until
  the queue is empty and then stays blocked; \<open>led_process_thread n\<close> is the state after
  at most \<open>n\<close> passes.
\<close>

fun led_process_thread :: "nat \<Rightarrow> config \<Rightarrow> sys \<Rightarrow> sys" where
  "led_process_thread 0 cfg s = s"
| "led_process_thread (Suc n) cfg s =
     (case led_process_iteration cfg s of
        None \<Rightarrow> s
      | Some s' \<Rightarrow> led_process_thread n cfg s')"

section \<open>The listeners\<close>

text \<open>
  \<^verbatim>\<open>output_blink\<close>, lines 88 to 114. The initialiser names \<^verbatim>\<open>duration_ms\<close> only, so
  the other members start as zero; the Kconfig integer is converted to \<^verbatim>\<open>uint16_t\<close>.
  The \<^verbatim>\<open>#if\<close> of line 91 selects the central (or unsplit) branch.
\<close>

definition output_blink :: "config \<Rightarrow> zmk_env \<Rightarrow> sys \<Rightarrow> sys" where
  "output_blink cfg env s =
     (let blink = \<lparr>rate = BLINK_OFF,
                   duration_ms = word_of_int (CONFIG_RGBLED_WIDGET_OUTPUT_BLINK_MS cfg),
                   first_item = False, sleep_ms = 0\<rparr>;
          blink =
            (if \<not> CONFIG_ZMK_SPLIT cfg \<or> CONFIG_ZMK_SPLIT_ROLE_CENTRAL cfg
             then (if zmk_ble_active_profile_is_connected env then blink\<lparr>rate := BLINK_OFF\<rparr>
                   else if zmk_ble_active_profile_is_open env then blink\<lparr>rate := BLINK_FAST\<rparr>
                   else blink\<lparr>rate := BLINK_SLOW\<rparr>)
             else (if zmk_split_bt_peripheral_is_connected env then blink\<lparr>rate := BLINK_SLOW\<rparr>
                   else blink\<lparr>rate := BLINK_FAST\<rparr>))
      in snd (k_msgq_put blink s))"

text \<open>
  \<^verbatim>\<open>led_output_listener_cb\<close>, lines 116 to 121; it does not read the event. The
  listeners return 0 on every path, so the models return the state only.
\<close>

definition led_output_listener_cb :: "config \<Rightarrow> zmk_env \<Rightarrow> sys \<Rightarrow> sys" where
  "led_output_listener_cb cfg env s =
     (if initialized s then output_blink cfg env s else s)"

text \<open>
  \<^verbatim>\<open>led_battery_listener_cb\<close>, lines 134 to 150. \<^verbatim>\<open>battery_level\<close> is a \<^verbatim>\<open>uint8_t\<close>,
  promoted to \<^verbatim>\<open>int\<close> for the comparison with the Kconfig integer.
\<close>

definition led_battery_listener_cb ::
  "config \<Rightarrow> zmk_battery_state_changed \<Rightarrow> sys \<Rightarrow> sys" where
  "led_battery_listener_cb cfg ev s =
     (if \<not> initialized s then s
      else
        (let battery_level = state_of_charge ev
         in if battery_level > 0 \<and>
               uint battery_level \<le> CONFIG_RGBLED_WIDGET_BATTERY_LEVEL_CRITICAL cfg
            then
              (let blink = \<lparr>rate = BLINK_FAST,
                            duration_ms = word_of_int (CONFIG_RGBLED_WIDGET_BATTERY_BLINK_MS cfg),
                            first_item = False, sleep_ms = 0\<rparr>
               in snd (k_msgq_put blink s))
            else s))"

text \<open>The two \<^verbatim>\<open>static const\<close> items of \<^verbatim>\<open>led_layer_listener_cb\<close>, lines 170 to 176.\<close>

definition layer_blink :: "config \<Rightarrow> blink_item" where
  "layer_blink cfg =
     \<lparr>rate = BLINK_FRANTIC,
      duration_ms = word_of_int (CONFIG_RGBLED_WIDGET_LAYER_BLINK_MS cfg),
      first_item = False,
      sleep_ms = word_of_int (CONFIG_RGBLED_WIDGET_LAYER_BLINK_MS cfg)\<rparr>"

definition layer_final_blink :: "config \<Rightarrow> blink_item" where
  "layer_final_blink cfg =
     \<lparr>rate = BLINK_MEDIUM,
      duration_ms = word_of_int (CONFIG_RGBLED_WIDGET_LAYER_BLINK_MS cfg),
      first_item = False,
      sleep_ms = 0\<rparr>"

text \<open>
  The \<^verbatim>\<open>for\<close> loop of lines 177 to 183, from the value \<open>i\<close> of its counter on.
  \<^verbatim>\<open>index\<close> is a \<^verbatim>\<open>uint8_t\<close> and \<^verbatim>\<open>i\<close> an \<^verbatim>\<open>int\<close>: both comparisons are on \<^verbatim>\<open>int\<close>,
  and \<^verbatim>\<open>index - 1\<close> is \<open>-1\<close> for index 0.
\<close>

function layer_blink_loop :: "config \<Rightarrow> 8 word \<Rightarrow> int \<Rightarrow> sys \<Rightarrow> sys" where
  "layer_blink_loop cfg index i s =
     (if i < uint index
      then layer_blink_loop cfg index (i + 1)
             (if i < uint index - 1
              then snd (k_msgq_put (layer_blink cfg) s)
              else snd (k_msgq_put (layer_final_blink cfg) s))
      else s)"
  by pat_completeness auto
termination
  by (relation "measure (\<lambda>(cfg, index, i, s). nat (uint index - i))") auto

declare layer_blink_loop.simps [simp del]

text \<open>\<^verbatim>\<open>led_layer_listener_cb\<close>, lines 159 to 185.\<close>

definition led_layer_listener_cb ::
  "config \<Rightarrow> zmk_env \<Rightarrow> zmk_layer_state_changed \<Rightarrow> sys \<Rightarrow> sys" where
  "led_layer_listener_cb cfg env ev s =
     (if \<not> initialized s then s
      else if \<not> state ev then s
      else
        (let index = zmk_keymap_highest_layer_active env
         in layer_blink_loop cfg index 0 s))"

section \<open>The boot sequence\<close>

text \<open>
  The \<^verbatim>\<open>while\<close> loop of lines 232 to 235. \<open>retry\<close> is the value of the counter before
  the test; \<^verbatim>\<open>retry++\<close> is evaluated only when the level is 0, and the counter (an
  \<^verbatim>\<open>int\<close> in C, never above 11) is not read after the loop. The call made in the body
  is the one after \<open>retry\<close> earlier ones.
\<close>

function battery_retry_loop :: "zmk_env \<Rightarrow> 8 word \<Rightarrow> nat \<Rightarrow> sys \<Rightarrow> 8 word \<times> sys" where
  "battery_retry_loop env battery_level retry s =
     (if battery_level = 0 \<and> retry < 10
      then battery_retry_loop env (zmk_battery_state_of_charge env (Suc retry)) (Suc retry)
             (k_sleep 100 s)
      else (battery_level, s))"
  by pat_completeness auto
termination
  by (relation "measure (\<lambda>(env, battery_level, retry, s). 10 - retry)") auto

declare battery_retry_loop.simps [simp del]

text \<open>
  The battery block of \<^verbatim>\<open>led_init_thread\<close>, lines 226 to 254. The initialiser names
  \<^verbatim>\<open>duration_ms\<close> and \<^verbatim>\<open>first_item\<close>; \<^verbatim>\<open>rate\<close> starts as zero, which is \<open>BLINK_OFF\<close>,
  and the last \<^verbatim>\<open>else\<close> assigns nothing.
\<close>

definition led_init_battery :: "config \<Rightarrow> zmk_env \<Rightarrow> sys \<Rightarrow> sys" where
  "led_init_battery cfg env s =
     (let blink = \<lparr>rate = BLINK_OFF,
                   duration_ms = word_of_int (CONFIG_RGBLED_WIDGET_BATTERY_BLINK_MS cfg),
                   first_item = True, sleep_ms = 0\<rparr>;
          battery_level = zmk_battery_state_of_charge env 0;
          (battery_level, s) = battery_retry_loop env battery_level 0 s;
          blink =
            (if battery_level = 0 then blink\<lparr>rate := BLINK_OFF\<rparr>
             else if uint battery_level \<ge> CONFIG_RGBLED_WIDGET_BATTERY_LEVEL_HIGH cfg
               then blink\<lparr>rate := BLINK_SLOW\<rparr>
             else if uint battery_level \<ge> CONFIG_RGBLED_WIDGET_BATTERY_LEVEL_LOW cfg
               then blink\<lparr>rate := BLINK_FAST\<rparr>
             else blink);
          s = snd (k_msgq_put blink s)
      in k_sleep (CONFIG_RGBLED_WIDGET_BATTERY_BLINK_MS cfg
                  + CONFIG_RGBLED_WIDGET_INTERVAL_MS cfg) s)"

text \<open>\<^verbatim>\<open>led_init_thread\<close>, lines 219 to 265.\<close>

definition led_init_thread :: "config \<Rightarrow> zmk_env \<Rightarrow> sys \<Rightarrow> sys" where
  "led_init_thread cfg env s =
     (let s = (if CONFIG_ZMK_BATTERY_REPORTING cfg then led_init_battery cfg env s else s);
          s = (if CONFIG_ZMK_BLE cfg then output_blink cfg env s else s)
      in s\<lparr>initialized := True\<rparr>)"

text \<open>The module's state when the threads start: nothing queued, the light off.\<close>

definition boot_state :: sys where
  "boot_state = \<lparr>initialized = False, led_msgq = [], led = False, calls = []\<rparr>"

section \<open>Auxiliary notions for the statements\<close>

text \<open>Calling \<open>k_msgq_put\<close> once for each item of a list, in order.\<close>

definition put_all :: "blink_item list \<Rightarrow> sys \<Rightarrow> sys" where
  "put_all xs s = fold (\<lambda>x s. snd (k_msgq_put x s)) xs s"

text \<open>
  Reading a sequence of calls as light phases: each sleep is a phase of that many
  milliseconds with the light as the driver calls before it have left it.
\<close>

fun pulses :: "bool \<Rightarrow> call list \<Rightarrow> (bool \<times> int) list" where
  "pulses l [] = []"
| "pulses l (LED_ON # cs) = pulses True cs"
| "pulses l (LED_OFF # cs) = pulses False cs"
| "pulses l (K_SLEEP ms # cs) = (l, ms) # pulses l cs"

text \<open>The half-periods as the spec lists them.\<close>

fun spec_half_period :: "blink_rate_t \<Rightarrow> int" where
  "spec_half_period BLINK_OFF = 0"
| "spec_half_period BLINK_SLOW = 300"
| "spec_half_period BLINK_MEDIUM = 150"
| "spec_half_period BLINK_FAST = 80"
| "spec_half_period BLINK_FRANTIC = 20"

text \<open>The calls made between a state and a later one.\<close>

definition new_calls :: "sys \<Rightarrow> sys \<Rightarrow> call list" where
  "new_calls s s' = drop (length (calls s)) (calls s')"

text \<open>
  What the spec says \<open>render(rate)\<close> does: off at once for \<open>Off\<close>, otherwise one
  on-pulse and one off-pulse of the rate's half-period.
\<close>

definition spec_render :: "blink_rate_t \<Rightarrow> call list" where
  "spec_render r =
     (if r = BLINK_OFF then [LED_OFF]
      else [LED_ON, K_SLEEP (spec_half_period r), LED_OFF, K_SLEEP (spec_half_period r)])"

text \<open>
  The spec's idle time after a request: \<open>gap_after_ms\<close> when it is not zero, the
  configured default gap when it is.
\<close>

definition spec_gap :: "config \<Rightarrow> blink_item \<Rightarrow> int" where
  "spec_gap cfg b =
     (if sleep_ms b \<noteq> 0 then uint (sleep_ms b) else CONFIG_RGBLED_WIDGET_INTERVAL_MS cfg)"

text \<open>
  The spec's connectivity policy. Central or single-device role: connected gives Off, an
  open profile Fast, anything else Slow. Peripheral role: linked gives Slow, otherwise
  Fast.
\<close>

definition spec_connectivity_rate :: "config \<Rightarrow> zmk_env \<Rightarrow> blink_rate_t" where
  "spec_connectivity_rate cfg env =
     (if \<not> CONFIG_ZMK_SPLIT cfg \<or> CONFIG_ZMK_SPLIT_ROLE_CENTRAL cfg
      then (if zmk_ble_active_profile_is_connected env then BLINK_OFF
            else if zmk_ble_active_profile_is_open env then BLINK_FAST
            else BLINK_SLOW)
      else (if zmk_split_bt_peripheral_is_connected env then BLINK_SLOW else BLINK_FAST))"

text \<open>\<open>k\<close> sleeps of 100 ms, as \<open>k\<close> passes of the boot retry loop leave them.\<close>

definition retry_sleeps :: "nat \<Rightarrow> sys \<Rightarrow> sys" where
  "retry_sleeps k s = s\<lparr>calls := calls s @ replicate k (K_SLEEP 100)\<rparr>"

text \<open>
  The spec's retry count: retry while the reading is 0, at most 10 times. Reading \<open>j\<close>
  is the one before retry \<open>j + 1\<close>.
\<close>

definition spec_retries :: "(nat \<Rightarrow> 8 word) \<Rightarrow> nat" where
  "spec_retries soc = length (takeWhile (\<lambda>j. soc j = 0) [0..<10])"

text \<open>
  The spec's layer pattern for highest active layer \<open>n\<close>: \<open>n - 1\<close> Frantic requests
  whose gap is the layer blink time, then one Medium request with the default gap; nothing
  for \<open>n = 0\<close>.
\<close>

definition spec_layer_requests :: "config \<Rightarrow> nat \<Rightarrow> blink_item list" where
  "spec_layer_requests cfg n =
     (if n = 0 then []
      else replicate (n - 1)
             \<lparr>rate = BLINK_FRANTIC,
              duration_ms = word_of_int (CONFIG_RGBLED_WIDGET_LAYER_BLINK_MS cfg),
              first_item = False,
              sleep_ms = word_of_int (CONFIG_RGBLED_WIDGET_LAYER_BLINK_MS cfg)\<rparr>
           @ [\<lparr>rate = BLINK_MEDIUM,
               duration_ms = word_of_int (CONFIG_RGBLED_WIDGET_LAYER_BLINK_MS cfg),
               first_item = False, sleep_ms = 0\<rparr>])"

section \<open>Runs of the module\<close>

text \<open>
  What can happen to the module: one of the three events is delivered to its listener,
  the boot thread runs, or the renderer makes one pass of its loop. The subscriptions of
  lines 123 to 130, 153 to 154 and 187 to 188 tie each event to its listener.
\<close>

datatype activity =
    Connectivity_event zmk_env
  | Battery_event zmk_battery_state_changed
  | Layer_event zmk_env zmk_layer_state_changed
  | Boot zmk_env
  | Render

text \<open>
  A listener that its \<^verbatim>\<open>#if\<close> leaves out of the build receives nothing. A renderer
  blocked on the empty queue leaves the state as it is.
\<close>

fun step :: "config \<Rightarrow> sys \<Rightarrow> activity \<Rightarrow> sys" where
  "step cfg s (Connectivity_event env) =
     (if CONFIG_ZMK_BLE cfg then led_output_listener_cb cfg env s else s)"
| "step cfg s (Battery_event ev) =
     (if CONFIG_ZMK_BATTERY_REPORTING cfg then led_battery_listener_cb cfg ev s else s)"
| "step cfg s (Layer_event env ev) =
     (if CONFIG_RGBLED_WIDGET_SHOW_LAYER_CHANGE cfg
         \<and> (\<not> CONFIG_ZMK_SPLIT cfg \<or> CONFIG_ZMK_SPLIT_ROLE_CENTRAL cfg)
      then led_layer_listener_cb cfg env ev s else s)"
| "step cfg s (Boot env) = led_init_thread cfg env s"
| "step cfg s Render = (case led_process_iteration cfg s of None \<Rightarrow> s | Some s' \<Rightarrow> s')"

section \<open>Concrete inputs\<close>

definition example_config :: config where
  "example_config =
     \<lparr>CONFIG_ZMK_BLE = True, CONFIG_ZMK_SPLIT = False, CONFIG_ZMK_SPLIT_ROLE_CENTRAL = False,
      CONFIG_ZMK_BATTERY_REPORTING = True,
      CONFIG_RGBLED_WIDGET_SHOW_LAYER_CHANGE = True,
      CONFIG_RGBLED_WIDGET_OUTPUT_BLINK_MS = 1000,
      CONFIG_RGBLED_WIDGET_BATTERY_BLINK_MS = 2000,
      CONFIG_RGBLED_WIDGET_LAYER_BLINK_MS = 100,
      CONFIG_RGBLED_WIDGET_INTERVAL_MS = 500,
      CONFIG_RGBLED_WIDGET_BATTERY_LEVEL_HIGH = 80,
      CONFIG_RGBLED_WIDGET_BATTERY_LEVEL_LOW = 20,
      CONFIG_RGBLED_WIDGET_BATTERY_LEVEL_CRITICAL = 5\<rparr>"

text \<open>The battery reads 0 ten times and 50 at the tenth retry.\<close>

definition example_env :: zmk_env where
  "example_env =
     \<lparr>zmk_ble_active_profile_is_connected = False,
      zmk_ble_active_profile_is_open = True,
      zmk_split_bt_peripheral_is_connected = False,
      zmk_keymap_highest_layer_active = 3,
      zmk_battery_state_of_charge = (\<lambda>k. if k < 10 then 0 else 50)\<rparr>"

definition ready_state :: sys where
  "ready_state = boot_state\<lparr>initialized := True\<rparr>"

text \<open>A ready state whose queue holds 16 items.\<close>

definition full_state :: sys where
  "full_state =
     ready_state\<lparr>led_msgq :=
       replicate 16 \<lparr>rate = BLINK_FAST, duration_ms = 2000, first_item = False, sleep_ms = 0\<rparr>\<rparr>"

text \<open>The battery reads 10 percent at once.\<close>

definition low_env :: zmk_env where
  "low_env = example_env\<lparr>zmk_battery_state_of_charge := (\<lambda>k. 10)\<rparr>"

text \<open>The battery never reads anything but 0.\<close>

definition dead_env :: zmk_env where
  "dead_env = example_env\<lparr>zmk_battery_state_of_charge := (\<lambda>k. 0)\<rparr>"

text \<open>The example configuration with the low threshold at 60 percent.\<close>

definition high_low_config :: config where
  "high_low_config = example_config\<lparr>CONFIG_RGBLED_WIDGET_BATTERY_LEVEL_LOW := 60\<rparr>"

text \<open>The example configuration with the high threshold, at 5 percent, below the low one.\<close>

definition inverted_config :: config where
  "inverted_config = example_config\<lparr>CONFIG_RGBLED_WIDGET_BATTERY_LEVEL_HIGH := 5\<rparr>"

section \<open>Helper lemmas\<close>

lemma put_all_Nil: "put_all [] s = s"
  by (simp add: put_all_def)

lemma put_all_Cons: "put_all (x # xs) s = put_all xs (snd (k_msgq_put x s))"
  by (simp add: put_all_def)

lemma put_all_queue:
  "led_msgq (put_all xs s) = led_msgq s @ take (led_msgq_max_msgs - length (led_msgq s)) xs"
proof (induction xs arbitrary: s)
  case Nil
  show ?case by (simp add: put_all_Nil)
next
  case (Cons x xs)
  show ?case
  proof (cases "length (led_msgq s) < led_msgq_max_msgs")
    case True
    then have "led_msgq_max_msgs - length (led_msgq s) = Suc (led_msgq_max_msgs - Suc (length (led_msgq s)))"
      by simp
    with True show ?thesis
      by (simp add: put_all_Cons Cons.IH k_msgq_put_def)
  next
    case False
    then show ?thesis
      by (simp add: put_all_Cons Cons.IH k_msgq_put_def)
  qed
qed

lemma layer_blink_loop_put_all:
  "0 \<le> i \<Longrightarrow>
   layer_blink_loop cfg index i s =
     put_all (if i < uint index
              then replicate (nat (uint index - 1 - i)) (layer_blink cfg) @ [layer_final_blink cfg]
              else []) s"
proof (induction cfg index i s rule: layer_blink_loop.induct)
  case (1 cfg index i s)
  show ?case
  proof (cases "i < uint index")
    case False
    then show ?thesis
      by (subst layer_blink_loop.simps) (simp add: put_all_Nil)
  next
    case True
    note lt = True
    show ?thesis
    proof (cases "i < uint index - 1")
      case True
      then have n: "nat (uint index - 1 - i) = Suc (nat (uint index - 1 - (i + 1)))"
        by simp
      have "layer_blink_loop cfg index i s =
            layer_blink_loop cfg index (i + 1) (snd (k_msgq_put (layer_blink cfg) s))"
        using lt True by (subst layer_blink_loop.simps) simp
      also have "\<dots> = put_all (replicate (nat (uint index - 1 - (i + 1))) (layer_blink cfg)
                          @ [layer_final_blink cfg]) (snd (k_msgq_put (layer_blink cfg) s))"
        using "1.IH" [OF lt] "1.prems" True by simp
      finally show ?thesis
        using lt by (simp add: n put_all_Cons)
    next
      case False
      with lt have e: "uint index - 1 - i = 0" by simp
      have "layer_blink_loop cfg index i s =
            layer_blink_loop cfg index (i + 1) (snd (k_msgq_put (layer_final_blink cfg) s))"
        using lt False by (subst layer_blink_loop.simps) simp
      also have "\<dots> = snd (k_msgq_put (layer_final_blink cfg) s)"
        using lt False by (subst layer_blink_loop.simps) simp
      finally show ?thesis
        using lt by (simp add: e put_all_Cons put_all_Nil)
    qed
  qed
qed

lemma battery_retry_loop_eq:
  "retry \<le> 10 \<Longrightarrow> battery_level = zmk_battery_state_of_charge env retry \<Longrightarrow>
   battery_retry_loop env battery_level retry s =
     (let k = retry + length (takeWhile (\<lambda>j. zmk_battery_state_of_charge env j = 0) [retry..<10])
      in (zmk_battery_state_of_charge env k, retry_sleeps (k - retry) s))"
proof (induction env battery_level retry s rule: battery_retry_loop.induct)
  case (1 env battery_level retry s)
  show ?case
  proof (cases "battery_level = 0 \<and> retry < 10")
    case True
    then have u: "[retry..<10] = retry # [Suc retry..<10]"
      by (simp add: upt_conv_Cons)
    have "battery_retry_loop env battery_level retry s =
          battery_retry_loop env (zmk_battery_state_of_charge env (Suc retry)) (Suc retry) (k_sleep 100 s)"
      using True by (subst battery_retry_loop.simps) simp
    also have "\<dots> = (let k = Suc retry + length (takeWhile (\<lambda>j. zmk_battery_state_of_charge env j = 0) [Suc retry..<10])
      in (zmk_battery_state_of_charge env k, retry_sleeps (k - Suc retry) (k_sleep 100 s)))"
      using "1.IH" [OF True] True by simp
    finally show ?thesis
      using True "1.prems"
      by (simp add: u Let_def retry_sleeps_def k_sleep_def replicate_append_same)
  next
    case False
    have "battery_retry_loop env battery_level retry s = (battery_level, s)"
      using False by (subst battery_retry_loop.simps) auto
    moreover have "takeWhile (\<lambda>j. zmk_battery_state_of_charge env j = 0) [retry..<10] = []"
    proof (cases "retry < 10")
      case True
      with False "1.prems" show ?thesis by (simp add: upt_conv_Cons)
    next
      case False
      then show ?thesis by simp
    qed
    ultimately show ?thesis
      using "1.prems" by (simp add: retry_sleeps_def)
  qed
qed

lemma led_do_blink_render:
  "led_do_blink r s = s\<lparr>led := False, calls := calls s @ spec_render r\<rparr>"
  by (cases r) (simp_all add: led_on_def led_off_def k_sleep_def spec_render_def)

lemma led_process_iteration_Cons:
  "led_msgq s = b # q \<Longrightarrow>
   led_process_iteration cfg s =
     Some (k_sleep (spec_gap cfg b) (led_do_blink (rate b) (s\<lparr>led_msgq := q\<rparr>)))"
  by (simp add: led_process_iteration_def k_msgq_get_def spec_gap_def word_greater_zero_iff)

lemma led_process_iteration_Nil:
  "led_msgq s = [] \<Longrightarrow> led_process_iteration cfg s = None"
  by (simp add: led_process_iteration_def k_msgq_get_def)

lemma output_blink_put:
  "output_blink cfg env s =
     snd (k_msgq_put \<lparr>rate = spec_connectivity_rate cfg env,
                      duration_ms = word_of_int (CONFIG_RGBLED_WIDGET_OUTPUT_BLINK_MS cfg),
                      first_item = False, sleep_ms = 0\<rparr> s)"
  by (simp add: output_blink_def spec_connectivity_rate_def)

lemma battery_listener_put:
  "led_battery_listener_cb cfg ev s =
     (if initialized s \<and> 0 < state_of_charge ev
         \<and> uint (state_of_charge ev) \<le> CONFIG_RGBLED_WIDGET_BATTERY_LEVEL_CRITICAL cfg
      then snd (k_msgq_put \<lparr>rate = BLINK_FAST,
                            duration_ms = word_of_int (CONFIG_RGBLED_WIDGET_BATTERY_BLINK_MS cfg),
                            first_item = False, sleep_ms = 0\<rparr> s)
      else s)"
  by (simp add: led_battery_listener_cb_def Let_def)

lemma k_msgq_put_room:
  "length (led_msgq s) < 16 \<Longrightarrow> led_msgq (snd (k_msgq_put x s)) = led_msgq s @ [x]"
  by (simp add: k_msgq_put_def led_msgq_max_msgs_def)

lemma length_spec_layer_requests: "length (spec_layer_requests cfg n) = n"
  by (simp add: spec_layer_requests_def)

lemma layer_blink_loop_spec:
  "layer_blink_loop cfg index 0 s = put_all (spec_layer_requests cfg (unat index)) s"
proof (cases "index = 0")
  case True
  have "layer_blink_loop cfg index 0 s = put_all [] s"
    using layer_blink_loop_put_all [of 0 cfg index s] True by simp
  with True show ?thesis
    by (simp add: spec_layer_requests_def)
next
  case False
  then have "uint index \<noteq> 0"
    by (simp add: uint_0_iff)
  then have p: "0 < uint index"
    using uint_ge_0 [of index] by linarith
  from False have q: "unat index \<noteq> 0"
    by (simp add: unat_0_iff)
  have r: "nat (uint index - 1 - 0) = unat index - 1"
    using p unfolding unat_eq_nat_uint by arith
  have "layer_blink_loop cfg index 0 s =
          put_all (replicate (nat (uint index - 1 - 0)) (layer_blink cfg)
                   @ [layer_final_blink cfg]) s"
    using layer_blink_loop_put_all [of 0 cfg index s] p by simp
  then show ?thesis
    unfolding r spec_layer_requests_def layer_blink_def layer_final_blink_def
    using q by simp
qed

lemma layer_listener_put_all:
  "led_layer_listener_cb cfg env ev s =
     (if initialized s \<and> state ev
      then put_all (spec_layer_requests cfg (unat (zmk_keymap_highest_layer_active env))) s
      else s)"
  by (simp add: led_layer_listener_cb_def layer_blink_loop_spec)

lemma put_all_room:
  "length (led_msgq s) + length xs \<le> 16 \<Longrightarrow> led_msgq (put_all xs s) = led_msgq s @ xs"
  by (simp add: put_all_queue led_msgq_max_msgs_def)

lemma k_msgq_put_bounded:
  "length (led_msgq s) \<le> 16 \<Longrightarrow> length (led_msgq (snd (k_msgq_put x s))) \<le> 16"
  by (simp add: k_msgq_put_def led_msgq_max_msgs_def)

lemma put_all_bounded:
  "length (led_msgq s) \<le> 16 \<Longrightarrow> length (led_msgq (put_all xs s)) \<le> 16"
  by (simp add: put_all_queue led_msgq_max_msgs_def)

lemma k_sleep_fields:
  "led_msgq (k_sleep ms s) = led_msgq s"
  "initialized (k_sleep ms s) = initialized s"
  "led (k_sleep ms s) = led s"
  "calls (k_sleep ms s) = calls s @ [K_SLEEP ms]"
  by (simp_all add: k_sleep_def)

lemma retry_sleeps_fields:
  "led_msgq (retry_sleeps k s) = led_msgq s"
  "initialized (retry_sleeps k s) = initialized s"
  "led (retry_sleeps k s) = led s"
  by (simp_all add: retry_sleeps_def)

lemma output_blink_bounded:
  "length (led_msgq s) \<le> 16 \<Longrightarrow> length (led_msgq (output_blink cfg env s)) \<le> 16"
  by (simp add: output_blink_put k_msgq_put_bounded)

lemma led_init_battery_eq:
  "led_init_battery cfg env s =
     (let k = spec_retries (zmk_battery_state_of_charge env);
          r = zmk_battery_state_of_charge env k
      in k_sleep (CONFIG_RGBLED_WIDGET_BATTERY_BLINK_MS cfg + CONFIG_RGBLED_WIDGET_INTERVAL_MS cfg)
           (snd (k_msgq_put
              \<lparr>rate = (if r = 0 then BLINK_OFF
                        else if CONFIG_RGBLED_WIDGET_BATTERY_LEVEL_HIGH cfg \<le> uint r then BLINK_SLOW
                        else if CONFIG_RGBLED_WIDGET_BATTERY_LEVEL_LOW cfg \<le> uint r then BLINK_FAST
                        else BLINK_OFF),
               duration_ms = word_of_int (CONFIG_RGBLED_WIDGET_BATTERY_BLINK_MS cfg),
               first_item = True, sleep_ms = 0\<rparr>
              (retry_sleeps k s))))"
proof -
  have "battery_retry_loop env (zmk_battery_state_of_charge env 0) 0 s =
          (zmk_battery_state_of_charge env (spec_retries (zmk_battery_state_of_charge env)),
           retry_sleeps (spec_retries (zmk_battery_state_of_charge env)) s)"
    using battery_retry_loop_eq [of 0 "zmk_battery_state_of_charge env 0" env s]
    by (simp add: spec_retries_def Let_def)
  then show ?thesis
    by (simp add: led_init_battery_def Let_def)
qed

lemma led_init_battery_bounded:
  "length (led_msgq s) \<le> 16 \<Longrightarrow> length (led_msgq (led_init_battery cfg env s)) \<le> 16"
  by (simp add: led_init_battery_eq Let_def k_sleep_fields k_msgq_put_bounded retry_sleeps_fields)

lemma led_process_iteration_bounded:
  "led_process_iteration cfg s = Some s' \<Longrightarrow> length (led_msgq s') \<le> length (led_msgq s)"
  by (cases "led_msgq s")
    (auto simp add: led_process_iteration_Nil led_process_iteration_Cons k_sleep_fields
      led_do_blink_render)

lemma step_bounded:
  "length (led_msgq s) \<le> 16 \<Longrightarrow> length (led_msgq (step cfg s a)) \<le> 16"
proof (cases a)
  case (Connectivity_event env)
  assume "length (led_msgq s) \<le> 16"
  with Connectivity_event show ?thesis
    by (simp add: led_output_listener_cb_def output_blink_bounded)
next
  case (Battery_event ev)
  assume "length (led_msgq s) \<le> 16"
  with Battery_event show ?thesis
    by (simp add: battery_listener_put k_msgq_put_bounded)
next
  case (Layer_event env ev)
  assume "length (led_msgq s) \<le> 16"
  with Layer_event show ?thesis
    by (simp add: layer_listener_put_all put_all_bounded)
next
  case (Boot env)
  assume "length (led_msgq s) \<le> 16"
  with Boot show ?thesis
    by (simp add: led_init_thread_def Let_def output_blink_bounded led_init_battery_bounded)
next
  case Render
  assume b: "length (led_msgq s) \<le> 16"
  show ?thesis
  proof (cases "led_process_iteration cfg s")
    case None
    with Render b show ?thesis by simp
  next
    case (Some s')
    with Render b led_process_iteration_bounded [OF Some] show ?thesis by simp
  qed
qed

lemma run_bounded:
  "length (led_msgq (foldl (step cfg) boot_state acts)) \<le> 16"
proof (induction acts rule: rev_induct)
  case Nil
  show ?case by (simp add: boot_state_def)
next
  case (snoc a acts)
  then show ?case by (simp add: step_bounded)
qed

lemma led_process_thread_drains:
  "length (led_msgq s) \<le> n \<Longrightarrow>
   led_process_thread n cfg s =
     s\<lparr>led_msgq := [],
       led := (if led_msgq s = [] then led s else False),
       calls := calls s @ concat (map (\<lambda>b. spec_render (rate b) @ [K_SLEEP (spec_gap cfg b)])
                                   (led_msgq s))\<rparr>"
proof (induction n arbitrary: s)
  case 0
  then show ?case by simp
next
  case (Suc n)
  show ?case
  proof (cases "led_msgq s")
    case Nil
    then show ?thesis
      by (simp add: led_process_iteration_Nil)
  next
    case (Cons b q)
    let ?s' = "k_sleep (spec_gap cfg b) (led_do_blink (rate b) (s\<lparr>led_msgq := q\<rparr>))"
    have q: "led_msgq ?s' = q"
      by (simp add: k_sleep_fields led_do_blink_render)
    with Suc.prems Cons have "length (led_msgq ?s') \<le> n"
      by simp
    from Suc.IH [OF this] Cons show ?thesis
      by (simp add: led_process_iteration_Cons q)
        (simp add: k_sleep_def led_do_blink_render)
  qed
qed

lemma spec_retries_le: "spec_retries soc \<le> 10"
proof -
  have "length (takeWhile (\<lambda>j. soc j = 0) [0..<10]) \<le> length [0..<10]"
    by (rule length_takeWhile_le)
  then show ?thesis by (simp add: spec_retries_def)
qed

lemma spec_retries_zero: "j < spec_retries soc \<Longrightarrow> soc j = 0"
proof -
  assume a: "j < spec_retries soc"
  let ?P = "\<lambda>j. soc j = 0"
  from a have l: "j < length (takeWhile ?P [0..<10])"
    by (simp add: spec_retries_def)
  then have "takeWhile ?P [0..<10] ! j \<in> set (takeWhile ?P [0..<10])"
    by (rule nth_mem)
  then have "?P (takeWhile ?P [0..<10] ! j)"
    by (rule set_takeWhileD [THEN conjunct2])
  moreover have "takeWhile ?P [0..<10] ! j = [0..<10] ! j"
    using l by (rule takeWhile_nth)
  moreover have "j < 10"
    using a spec_retries_le [of soc] by simp
  ultimately show ?thesis by simp
qed

lemma spec_retries_stop: "spec_retries soc < 10 \<Longrightarrow> soc (spec_retries soc) \<noteq> 0"
proof -
  assume a: "spec_retries soc < 10"
  let ?P = "\<lambda>j. soc j = 0"
  from a have "length (takeWhile ?P [0..<10]) < length [0..<10]"
    by (simp add: spec_retries_def)
  then have "\<not> ?P ([0..<10] ! length (takeWhile ?P [0..<10]))"
    by (rule nth_length_takeWhile)
  with a show ?thesis
    by (simp add: spec_retries_def)
qed

lemma spec_retries_eq:
  assumes "k \<le> 10" and "\<And>j. j < k \<Longrightarrow> soc j = 0" and "k < 10 \<Longrightarrow> soc k \<noteq> 0"
  shows "spec_retries soc = k"
proof (rule antisym)
  show "spec_retries soc \<le> k"
  proof (rule ccontr)
    assume "\<not> spec_retries soc \<le> k"
    then have "k < spec_retries soc" by simp
    then have "soc k = 0" "k < 10"
      using spec_retries_zero [of k soc] spec_retries_le [of soc] by simp_all
    with assms(3) show False by simp
  qed
  show "k \<le> spec_retries soc"
  proof (rule ccontr)
    assume "\<not> k \<le> spec_retries soc"
    then have lt: "spec_retries soc < k" by simp
    with assms(1) have "spec_retries soc < 10" by simp
    then have "soc (spec_retries soc) \<noteq> 0" by (rule spec_retries_stop)
    with assms(2) [OF lt] show False by simp
  qed
qed

lemma spec_retries_example: "spec_retries (zmk_battery_state_of_charge example_env) = 10"
  by (rule spec_retries_eq) (simp_all add: example_env_def)

lemma spec_retries_low: "spec_retries (zmk_battery_state_of_charge low_env) = 0"
  by (rule spec_retries_eq) (simp_all add: low_env_def)

lemma spec_retries_dead: "spec_retries (zmk_battery_state_of_charge dead_env) = 10"
  by (rule spec_retries_eq) (simp_all add: dead_env_def)

lemma led_process_iteration_default_gap:
  "sleep_ms b = 0 \<Longrightarrow>
   led_process_iteration cfg (t\<lparr>led_msgq := b # q\<rparr>) =
     Some (k_sleep (CONFIG_RGBLED_WIDGET_INTERVAL_MS cfg)
             (led_do_blink (rate b) (t\<lparr>led_msgq := q\<rparr>)))"
  by (simp add: led_process_iteration_Cons spec_gap_def)

lemma spec_layer_requests_gaps:
  "0 \<le> CONFIG_RGBLED_WIDGET_LAYER_BLINK_MS cfg \<Longrightarrow>
   CONFIG_RGBLED_WIDGET_LAYER_BLINK_MS cfg < 65536 \<Longrightarrow>
   b \<in> set (butlast (spec_layer_requests cfg n)) \<Longrightarrow>
   rate b = BLINK_FRANTIC \<and> uint (sleep_ms b) = CONFIG_RGBLED_WIDGET_LAYER_BLINK_MS cfg"
  by (auto simp add: spec_layer_requests_def uint_word_of_int take_bit_int_eq_self
      split: if_splits)

lemma spec_layer_requests_last:
  "n \<noteq> 0 \<Longrightarrow>
   rate (last (spec_layer_requests cfg n)) = BLINK_MEDIUM
   \<and> sleep_ms (last (spec_layer_requests cfg n)) = 0"
  by (simp add: spec_layer_requests_def)

section \<open>The claims\<close>

text \<open>
  Claim C1. For each of the four rates other than \<open>BLINK_OFF\<close>, \<open>led_do_blink\<close> makes
  exactly the calls on, sleep, off, sleep, which is one lit phase followed by one dark
  phase, each of the rate's half-period (300, 150, 80 and 20 ms). For \<open>BLINK_OFF\<close> it
  switches the light off and sleeps not at all. The renderer hands \<open>led_do_blink\<close> the
  rate only: a pass of its loop does the same whatever \<open>duration_ms\<close> the item has.
\<close>

theorem led_do_blink_one_cycle:
  "pulses (led s) (new_calls s (led_do_blink BLINK_SLOW s)) = [(True, 300), (False, 300)]
   \<and> pulses (led s) (new_calls s (led_do_blink BLINK_MEDIUM s)) = [(True, 150), (False, 150)]
   \<and> pulses (led s) (new_calls s (led_do_blink BLINK_FAST s)) = [(True, 80), (False, 80)]
   \<and> pulses (led s) (new_calls s (led_do_blink BLINK_FRANTIC s)) = [(True, 20), (False, 20)]
   \<and> new_calls s (led_do_blink BLINK_SLOW s) = [LED_ON, K_SLEEP 300, LED_OFF, K_SLEEP 300]
   \<and> new_calls s (led_do_blink BLINK_MEDIUM s) = [LED_ON, K_SLEEP 150, LED_OFF, K_SLEEP 150]
   \<and> new_calls s (led_do_blink BLINK_FAST s) = [LED_ON, K_SLEEP 80, LED_OFF, K_SLEEP 80]
   \<and> new_calls s (led_do_blink BLINK_FRANTIC s) = [LED_ON, K_SLEEP 20, LED_OFF, K_SLEEP 20]
   \<and> led_do_blink BLINK_OFF s = s\<lparr>led := False, calls := calls s @ [LED_OFF]\<rparr>
   \<and> pulses (led s) (new_calls s (led_do_blink BLINK_OFF s)) = []
   \<and> led_process_iteration cfg (s\<lparr>led_msgq := b\<lparr>duration_ms := d\<rparr> # q\<rparr>)
       = led_process_iteration cfg (s\<lparr>led_msgq := b # q\<rparr>)"
  by (simp add: led_do_blink_render new_calls_def spec_render_def led_process_iteration_Cons
      spec_gap_def)

text \<open>
  Claim C2, with the condition on the thresholds that it needs. Let the low threshold be
  at most the high one, and let the reading \<open>r\<close> the
  boot retry loop ends with be above zero and below the low threshold. Then no branch of
  the battery block assigns a rate: the item it puts carries the rate its initialiser
  left, \<open>BLINK_OFF\<close>. Rendering that item from the boot state makes no call that lights
  the indicator: the only driver call is \<open>led_off\<close>, and the light is off before and
  after.
\<close>

theorem boot_low_battery_unindicated:
  assumes "CONFIG_RGBLED_WIDGET_BATTERY_LEVEL_LOW cfg \<le> CONFIG_RGBLED_WIDGET_BATTERY_LEVEL_HIGH cfg"
    and "r = zmk_battery_state_of_charge env (spec_retries (zmk_battery_state_of_charge env))"
    and "0 < r"
    and "uint r < CONFIG_RGBLED_WIDGET_BATTERY_LEVEL_LOW cfg"
  shows
    "led_init_battery cfg env s =
       k_sleep (CONFIG_RGBLED_WIDGET_BATTERY_BLINK_MS cfg + CONFIG_RGBLED_WIDGET_INTERVAL_MS cfg)
         (snd (k_msgq_put
            \<lparr>rate = BLINK_OFF,
             duration_ms = word_of_int (CONFIG_RGBLED_WIDGET_BATTERY_BLINK_MS cfg),
             first_item = True, sleep_ms = 0\<rparr>
            (retry_sleeps (spec_retries (zmk_battery_state_of_charge env)) s)))
     \<and> led_process_iteration cfg (led_init_battery cfg env boot_state) =
         Some \<lparr>initialized = False, led_msgq = [], led = False,
               calls = replicate (spec_retries (zmk_battery_state_of_charge env)) (K_SLEEP 100)
                  @ [K_SLEEP (CONFIG_RGBLED_WIDGET_BATTERY_BLINK_MS cfg
                              + CONFIG_RGBLED_WIDGET_INTERVAL_MS cfg),
                     LED_OFF, K_SLEEP (CONFIG_RGBLED_WIDGET_INTERVAL_MS cfg)]\<rparr>
     \<and> led_do_blink BLINK_OFF t = t\<lparr>led := False, calls := calls t @ [LED_OFF]\<rparr>"
proof -
  from assms have r: "r \<noteq> 0" "\<not> CONFIG_RGBLED_WIDGET_BATTERY_LEVEL_HIGH cfg \<le> uint r"
    "\<not> CONFIG_RGBLED_WIDGET_BATTERY_LEVEL_LOW cfg \<le> uint r"
    by auto
  have a: "led_init_battery cfg env s =
       k_sleep (CONFIG_RGBLED_WIDGET_BATTERY_BLINK_MS cfg + CONFIG_RGBLED_WIDGET_INTERVAL_MS cfg)
         (snd (k_msgq_put
            \<lparr>rate = BLINK_OFF,
             duration_ms = word_of_int (CONFIG_RGBLED_WIDGET_BATTERY_BLINK_MS cfg),
             first_item = True, sleep_ms = 0\<rparr>
            (retry_sleeps (spec_retries (zmk_battery_state_of_charge env)) s)))" for s
    using r unfolding assms(2) by (simp add: led_init_battery_eq Let_def)
  have b: "led_msgq (led_init_battery cfg env boot_state) =
       [\<lparr>rate = BLINK_OFF,
         duration_ms = word_of_int (CONFIG_RGBLED_WIDGET_BATTERY_BLINK_MS cfg),
         first_item = True, sleep_ms = 0\<rparr>]"
    by (simp add: a k_sleep_fields k_msgq_put_room retry_sleeps_fields boot_state_def)
  have c: "led_process_iteration cfg (led_init_battery cfg env boot_state) =
         Some \<lparr>initialized = False, led_msgq = [], led = False,
               calls = replicate (spec_retries (zmk_battery_state_of_charge env)) (K_SLEEP 100)
                  @ [K_SLEEP (CONFIG_RGBLED_WIDGET_BATTERY_BLINK_MS cfg
                              + CONFIG_RGBLED_WIDGET_INTERVAL_MS cfg),
                     LED_OFF, K_SLEEP (CONFIG_RGBLED_WIDGET_INTERVAL_MS cfg)]\<rparr>"
    unfolding led_process_iteration_Cons [OF b]
    by (simp add: a spec_gap_def led_do_blink_render spec_render_def k_sleep_def k_msgq_put_def
        retry_sleeps_def boot_state_def led_msgq_max_msgs_def)
  show ?thesis
    using a c by (simp add: led_off_def)
qed

theorem boot_low_battery_unindicated_witness:
  "led_msgq (led_init_battery example_config low_env boot_state) =
     [\<lparr>rate = BLINK_OFF, duration_ms = 2000, first_item = True, sleep_ms = 0\<rparr>]
   \<and> led_process_iteration example_config (led_init_battery example_config low_env boot_state) =
       Some \<lparr>initialized = False, led_msgq = [], led = False,
             calls = [K_SLEEP 2500, LED_OFF, K_SLEEP 500]\<rparr>"
proof -
  have 1: "CONFIG_RGBLED_WIDGET_BATTERY_LEVEL_LOW example_config
             \<le> CONFIG_RGBLED_WIDGET_BATTERY_LEVEL_HIGH example_config"
    by (simp add: example_config_def)
  have 2: "(10 :: 8 word) =
             zmk_battery_state_of_charge low_env (spec_retries (zmk_battery_state_of_charge low_env))"
    by (simp add: spec_retries_low) (simp add: low_env_def)
  have 3: "(0 :: 8 word) < 10"
    by simp
  have 4: "uint (10 :: 8 word) < CONFIG_RGBLED_WIDGET_BATTERY_LEVEL_LOW example_config"
    by (simp add: example_config_def)
  note t = boot_low_battery_unindicated [OF 1 2 3 4, of boot_state boot_state]
  have "led_msgq (led_init_battery example_config low_env boot_state) =
     [\<lparr>rate = BLINK_OFF, duration_ms = 2000, first_item = True, sleep_ms = 0\<rparr>]"
    unfolding t [THEN conjunct1]
    by (simp add: k_sleep_fields k_msgq_put_room retry_sleeps_fields boot_state_def
        example_config_def)
  moreover have "led_process_iteration example_config
       (led_init_battery example_config low_env boot_state) =
       Some \<lparr>initialized = False, led_msgq = [], led = False,
             calls = [K_SLEEP 2500, LED_OFF, K_SLEEP 500]\<rparr>"
    unfolding t [THEN conjunct2, THEN conjunct1]
    by (simp add: spec_retries_low example_config_def)
  ultimately show ?thesis by simp
qed

text \<open>
  The claim C2 as first stated has no condition on the thresholds. The code tests the high
  threshold first: with the high threshold at 5 and the low one at 20, a reading of 10 is
  above zero and below the low threshold, yet the item gets the rate \<open>BLINK_SLOW\<close> and
  rendering it lights the indicator.
\<close>

theorem boot_low_reading_blinks_slow:
  "(0 :: 8 word) < 10
   \<and> uint (10 :: 8 word) < CONFIG_RGBLED_WIDGET_BATTERY_LEVEL_LOW inverted_config
   \<and> zmk_battery_state_of_charge low_env
         (spec_retries (zmk_battery_state_of_charge low_env)) = 10
   \<and> led_msgq (led_init_battery inverted_config low_env boot_state) =
       [\<lparr>rate = BLINK_SLOW, duration_ms = 2000, first_item = True, sleep_ms = 0\<rparr>]
   \<and> led_process_iteration inverted_config
         (led_init_battery inverted_config low_env boot_state) =
       Some \<lparr>initialized = False, led_msgq = [], led = False,
             calls = [K_SLEEP 2500, LED_ON, K_SLEEP 300, LED_OFF, K_SLEEP 300, K_SLEEP 500]\<rparr>"
proof -
  have r: "zmk_battery_state_of_charge low_env
         (spec_retries (zmk_battery_state_of_charge low_env)) = 10"
    by (simp add: spec_retries_low) (simp add: low_env_def)
  have s: "led_init_battery inverted_config low_env boot_state =
      \<lparr>initialized = False,
       led_msgq = [\<lparr>rate = BLINK_SLOW, duration_ms = 2000, first_item = True, sleep_ms = 0\<rparr>],
       led = False, calls = [K_SLEEP 2500]\<rparr>"
    by (simp add: led_init_battery_eq Let_def spec_retries_low)
      (simp add: low_env_def inverted_config_def example_config_def k_sleep_def
        k_msgq_put_def led_msgq_max_msgs_def retry_sleeps_def boot_state_def)
  have p: "led_process_iteration inverted_config
         (led_init_battery inverted_config low_env boot_state) =
       Some \<lparr>initialized = False, led_msgq = [], led = False,
             calls = [K_SLEEP 2500, LED_ON, K_SLEEP 300, LED_OFF, K_SLEEP 300, K_SLEEP 500]\<rparr>"
    unfolding s
    by (simp add: led_process_iteration_def k_msgq_get_def led_on_def led_off_def k_sleep_def
        inverted_config_def example_config_def)
  have l: "uint (10 :: 8 word) < CONFIG_RGBLED_WIDGET_BATTERY_LEVEL_LOW inverted_config"
    by (simp add: inverted_config_def example_config_def)
  from r s p l show ?thesis
    by simp
qed

text \<open>
  Claim C3, with the condition on the thresholds that it needs. The battery block reads the charge, and while it reads 0 sleeps
  100 ms and reads again, at most 10 times: with \<open>k\<close> the number of retries, \<open>k \<le> 10\<close>,
  every reading before the \<open>k\<close>-th retry is 0, and the last one is not 0 unless
  \<open>k = 10\<close>. It then does exactly one \<open>k_msgq_put\<close>, of an item with \<open>first_item\<close> true
  whose rate is Off for a last reading of 0, Slow from the high threshold on, Fast from
  the low threshold on. When the readings are 0 up to the ninth retry and 50 at the
  tenth, the rate is that of level 50, and it is not Off provided 50 reaches the low or
  the high threshold. When all readings are 0 the rate is Off.
\<close>

theorem boot_battery_request:
  "spec_retries (zmk_battery_state_of_charge env) \<le> 10
   \<and> (\<forall>j < spec_retries (zmk_battery_state_of_charge env). zmk_battery_state_of_charge env j = 0)
   \<and> (spec_retries (zmk_battery_state_of_charge env) < 10 \<longrightarrow>
        zmk_battery_state_of_charge env (spec_retries (zmk_battery_state_of_charge env)) \<noteq> 0)
   \<and> (let k = spec_retries (zmk_battery_state_of_charge env);
           r = zmk_battery_state_of_charge env k;
           blink = \<lparr>rate = (if r = 0 then BLINK_OFF
                            else if CONFIG_RGBLED_WIDGET_BATTERY_LEVEL_HIGH cfg \<le> uint r
                              then BLINK_SLOW
                            else if CONFIG_RGBLED_WIDGET_BATTERY_LEVEL_LOW cfg \<le> uint r
                              then BLINK_FAST
                            else BLINK_OFF),
                    duration_ms = word_of_int (CONFIG_RGBLED_WIDGET_BATTERY_BLINK_MS cfg),
                    first_item = True, sleep_ms = 0\<rparr>
        in led_init_battery cfg env s =
             k_sleep (CONFIG_RGBLED_WIDGET_BATTERY_BLINK_MS cfg
                      + CONFIG_RGBLED_WIDGET_INTERVAL_MS cfg)
               (snd (k_msgq_put blink (retry_sleeps k s)))
           \<and> (length (led_msgq s) < 16 \<longrightarrow>
                led_msgq (led_init_battery cfg env s) = led_msgq s @ [blink])
           \<and> ((\<forall>j < 10. zmk_battery_state_of_charge env j = 0)
                \<and> zmk_battery_state_of_charge env 10 = 50 \<longrightarrow>
                k = 10 \<and> r = 50
                \<and> (CONFIG_RGBLED_WIDGET_BATTERY_LEVEL_HIGH cfg \<le> 50
                     \<or> CONFIG_RGBLED_WIDGET_BATTERY_LEVEL_LOW cfg \<le> 50 \<longrightarrow>
                    rate blink \<noteq> BLINK_OFF))
           \<and> ((\<forall>j \<le> 10. zmk_battery_state_of_charge env j = 0) \<longrightarrow>
                k = 10 \<and> rate blink = BLINK_OFF))"
proof -
  let ?soc = "zmk_battery_state_of_charge env"
  have 1: "spec_retries ?soc \<le> 10"
    by (rule spec_retries_le)
  have 2: "\<forall>j < spec_retries ?soc. ?soc j = 0"
    by (simp add: spec_retries_zero)
  have 3: "spec_retries ?soc < 10 \<longrightarrow> ?soc (spec_retries ?soc) \<noteq> 0"
    by (simp add: spec_retries_stop)
  have 4: "spec_retries ?soc = 10" if "\<forall>j < 10. ?soc j = 0"
    using that by (intro spec_retries_eq) simp_all
  have 5: "led_msgq (k_sleep d (snd (k_msgq_put b (retry_sleeps k s)))) = led_msgq s @ [b]"
    if "length (led_msgq s) < 16" for d b k
    using that by (simp add: k_sleep_fields k_msgq_put_room retry_sleeps_fields)
  show ?thesis
    using 1 2 3 by (auto simp add: Let_def led_init_battery_eq 4 5)
qed

theorem boot_battery_request_witness:
  "led_init_battery example_config example_env boot_state =
     \<lparr>initialized = False,
      led_msgq = [\<lparr>rate = BLINK_FAST, duration_ms = 2000, first_item = True, sleep_ms = 0\<rparr>],
      led = False,
      calls = replicate 10 (K_SLEEP 100) @ [K_SLEEP 2500]\<rparr>
   \<and> led_msgq (led_init_battery example_config dead_env boot_state) =
       [\<lparr>rate = BLINK_OFF, duration_ms = 2000, first_item = True, sleep_ms = 0\<rparr>]"
proof -
  note a = boot_battery_request [of example_env example_config boot_state,
      unfolded Let_def spec_retries_example, THEN conjunct2, THEN conjunct2, THEN conjunct2,
      THEN conjunct1]
  note b = boot_battery_request [of dead_env example_config boot_state,
      unfolded Let_def spec_retries_dead, THEN conjunct2, THEN conjunct2, THEN conjunct2,
      THEN conjunct1]
  have "led_init_battery example_config example_env boot_state =
     \<lparr>initialized = False,
      led_msgq = [\<lparr>rate = BLINK_FAST, duration_ms = 2000, first_item = True, sleep_ms = 0\<rparr>],
      led = False,
      calls = replicate 10 (K_SLEEP 100) @ [K_SLEEP 2500]\<rparr>"
    unfolding a
    by (simp add: example_env_def example_config_def k_sleep_def k_msgq_put_def
        led_msgq_max_msgs_def retry_sleeps_def boot_state_def)
  moreover have "led_msgq (led_init_battery example_config dead_env boot_state) =
       [\<lparr>rate = BLINK_OFF, duration_ms = 2000, first_item = True, sleep_ms = 0\<rparr>]"
    unfolding b
    by (simp add: dead_env_def example_config_def k_sleep_def k_msgq_put_def
        led_msgq_max_msgs_def retry_sleeps_def boot_state_def)
  ultimately show ?thesis by simp
qed

text \<open>
  The claim C3 as first stated says that the rate for those readings is not Off. With the
  low threshold at 60 and the high one at 80, level 50 is below both and the item keeps
  the rate \<open>BLINK_OFF\<close>.
\<close>

theorem boot_level_50_enqueued_off:
  "map (zmk_battery_state_of_charge example_env) [0..<11] = [0, 0, 0, 0, 0, 0, 0, 0, 0, 0, 50]
   \<and> led_msgq (led_init_battery high_low_config example_env boot_state) =
       [\<lparr>rate = BLINK_OFF, duration_ms = 2000, first_item = True, sleep_ms = 0\<rparr>]"
proof -
  have "[0..<11] = [0, 1, 2, 3, 4, 5, 6, 7, 8, 9, 10 :: nat]"
    by (simp add: upt_rec)
  then have "map (zmk_battery_state_of_charge example_env) [0..<11] =
      [0, 0, 0, 0, 0, 0, 0, 0, 0, 0, 50]"
    by (simp add: example_env_def)
  moreover have "led_msgq (led_init_battery high_low_config example_env boot_state) =
       [\<lparr>rate = BLINK_OFF, duration_ms = 2000, first_item = True, sleep_ms = 0\<rparr>]"
    by (simp add: led_init_battery_eq Let_def spec_retries_example)
      (simp add: example_env_def high_low_config_def example_config_def k_sleep_def
        k_msgq_put_def led_msgq_max_msgs_def retry_sleeps_def boot_state_def)
  ultimately show ?thesis by simp
qed

text \<open>
  Claim C4. While \<open>initialized\<close> is false each of the three listeners leaves the state,
  and so the queue, as it is, whatever the event and the answers of the subsystems.
\<close>

theorem listeners_dropped_before_ready:
  "\<not> initialized s \<Longrightarrow>
     led_output_listener_cb cfg env s = s
     \<and> led_battery_listener_cb cfg bev s = s
     \<and> led_layer_listener_cb cfg env lev s = s"
  by (simp add: led_output_listener_cb_def led_battery_listener_cb_def led_layer_listener_cb_def)

theorem listeners_dropped_before_ready_witness:
  "\<not> initialized boot_state
   \<and> led_output_listener_cb example_config example_env boot_state = boot_state
   \<and> led_battery_listener_cb example_config \<lparr>state_of_charge = 3\<rparr> boot_state = boot_state
   \<and> led_layer_listener_cb example_config example_env \<lparr>layer = 3, state = True\<rparr> boot_state
       = boot_state"
  using listeners_dropped_before_ready [of boot_state example_config example_env
      "\<lparr>state_of_charge = 3\<rparr>" "\<lparr>layer = 3, state = True\<rparr>"]
  by (simp add: boot_state_def)

text \<open>
  Claim C5. Once \<open>initialized\<close> is true, the connectivity listener does exactly one
  \<open>k_msgq_put\<close>, of an item whose rate follows the spec's policy: in the central role
  Off when the active profile is connected, Fast when it is open, Slow otherwise; in the
  peripheral role Slow when linked and Fast when not. With room in the queue the item
  becomes its last element.
\<close>

theorem connectivity_listener_one_request:
  "initialized s \<Longrightarrow>
     led_output_listener_cb cfg env s =
       snd (k_msgq_put \<lparr>rate = spec_connectivity_rate cfg env,
                        duration_ms = word_of_int (CONFIG_RGBLED_WIDGET_OUTPUT_BLINK_MS cfg),
                        first_item = False, sleep_ms = 0\<rparr> s)
     \<and> (length (led_msgq s) < 16 \<longrightarrow>
          led_msgq (led_output_listener_cb cfg env s) =
            led_msgq s @ [\<lparr>rate = spec_connectivity_rate cfg env,
                           duration_ms = word_of_int (CONFIG_RGBLED_WIDGET_OUTPUT_BLINK_MS cfg),
                           first_item = False, sleep_ms = 0\<rparr>])
     \<and> spec_connectivity_rate cfg env =
          (if \<not> CONFIG_ZMK_SPLIT cfg \<or> CONFIG_ZMK_SPLIT_ROLE_CENTRAL cfg
           then (if zmk_ble_active_profile_is_connected env then BLINK_OFF
                 else if zmk_ble_active_profile_is_open env then BLINK_FAST
                 else BLINK_SLOW)
           else (if zmk_split_bt_peripheral_is_connected env then BLINK_SLOW else BLINK_FAST))"
  by (simp add: led_output_listener_cb_def output_blink_put k_msgq_put_def led_msgq_max_msgs_def
      spec_connectivity_rate_def)

theorem connectivity_listener_one_request_witness:
  "initialized ready_state
   \<and> led_msgq (led_output_listener_cb example_config example_env ready_state) =
       [\<lparr>rate = BLINK_FAST, duration_ms = 1000, first_item = False, sleep_ms = 0\<rparr>]"
proof -
  have h: "initialized ready_state"
    by (simp add: ready_state_def boot_state_def)
  have "length (led_msgq ready_state) < 16"
    by (simp add: ready_state_def boot_state_def)
  with connectivity_listener_one_request [OF h, of example_config example_env]
  have "led_msgq (led_output_listener_cb example_config example_env ready_state) =
          led_msgq ready_state @
            [\<lparr>rate = spec_connectivity_rate example_config example_env,
              duration_ms = word_of_int (CONFIG_RGBLED_WIDGET_OUTPUT_BLINK_MS example_config),
              first_item = False, sleep_ms = 0\<rparr>]"
    by blast
  then show ?thesis
    by (simp add: h spec_connectivity_rate_def example_config_def example_env_def
        ready_state_def boot_state_def)
qed

text \<open>
  Claim C6. Once \<open>initialized\<close> is true, a battery event with level 0 or a level above
  the critical threshold leaves the state as it is; a level above 0 and up to the
  critical threshold leads to exactly one \<open>k_msgq_put\<close>, of an item with rate Fast, which
  becomes the last element of a queue that has room.
\<close>

theorem battery_listener_critical_only:
  "initialized s \<Longrightarrow>
     (state_of_charge ev = 0
        \<or> uint (state_of_charge ev) > CONFIG_RGBLED_WIDGET_BATTERY_LEVEL_CRITICAL cfg
      \<longrightarrow> led_battery_listener_cb cfg ev s = s)
     \<and> (0 < state_of_charge ev
          \<and> uint (state_of_charge ev) \<le> CONFIG_RGBLED_WIDGET_BATTERY_LEVEL_CRITICAL cfg
        \<longrightarrow> led_battery_listener_cb cfg ev s =
              snd (k_msgq_put \<lparr>rate = BLINK_FAST,
                     duration_ms = word_of_int (CONFIG_RGBLED_WIDGET_BATTERY_BLINK_MS cfg),
                     first_item = False, sleep_ms = 0\<rparr> s)
            \<and> (length (led_msgq s) < 16 \<longrightarrow>
                 led_msgq (led_battery_listener_cb cfg ev s) =
                   led_msgq s @
                     [\<lparr>rate = BLINK_FAST,
                       duration_ms = word_of_int (CONFIG_RGBLED_WIDGET_BATTERY_BLINK_MS cfg),
                       first_item = False, sleep_ms = 0\<rparr>]))"
  by (auto simp add: battery_listener_put k_msgq_put_room word_greater_zero_iff)

theorem battery_listener_critical_only_witness:
  "initialized ready_state
   \<and> led_battery_listener_cb example_config \<lparr>state_of_charge = 0\<rparr> ready_state = ready_state
   \<and> led_battery_listener_cb example_config \<lparr>state_of_charge = 6\<rparr> ready_state = ready_state
   \<and> led_msgq (led_battery_listener_cb example_config \<lparr>state_of_charge = 5\<rparr> ready_state) =
       [\<lparr>rate = BLINK_FAST, duration_ms = 2000, first_item = False, sleep_ms = 0\<rparr>]"
proof -
  have h: "initialized ready_state"
    by (simp add: ready_state_def boot_state_def)
  have a: "led_battery_listener_cb example_config \<lparr>state_of_charge = 0\<rparr> ready_state = ready_state"
    using battery_listener_critical_only [OF h, of "\<lparr>state_of_charge = 0\<rparr>" example_config]
    by simp
  have b: "led_battery_listener_cb example_config \<lparr>state_of_charge = 6\<rparr> ready_state = ready_state"
    using battery_listener_critical_only [OF h, of "\<lparr>state_of_charge = 6\<rparr>" example_config]
    by (simp add: example_config_def)
  have "led_msgq (led_battery_listener_cb example_config \<lparr>state_of_charge = 5\<rparr> ready_state) =
          led_msgq ready_state @
            [\<lparr>rate = BLINK_FAST,
              duration_ms = word_of_int (CONFIG_RGBLED_WIDGET_BATTERY_BLINK_MS example_config),
              first_item = False, sleep_ms = 0\<rparr>]"
  proof -
    have "(0::8 word) < 5 \<and> uint (5::8 word) \<le> CONFIG_RGBLED_WIDGET_BATTERY_LEVEL_CRITICAL example_config"
      by (simp add: example_config_def)
    moreover have "length (led_msgq ready_state) < 16"
      by (simp add: ready_state_def boot_state_def)
    ultimately show ?thesis
      using battery_listener_critical_only [OF h, of "\<lparr>state_of_charge = 5\<rparr>" example_config]
      by (simp add: k_msgq_put_room)
  qed
  then show ?thesis
    using h a b by (simp add: example_config_def ready_state_def boot_state_def)
qed

text \<open>
  Claim C7. Once \<open>initialized\<close> is true, a layer event with \<open>state\<close> false leaves the
  state as it is. One with \<open>state\<close> true and highest active layer \<open>n\<close> does the puts of
  the spec's pattern in order; these are \<open>n\<close> items, they become the end of a queue that
  has room for them, and for \<open>n = 0\<close> nothing is put. In the pattern all items but the
  last are Frantic with the layer blink time as \<open>sleep_ms\<close> (a time that fits the 16-bit
  member), and the last is Medium with \<open>sleep_ms\<close> 0, the renderer's default gap.
\<close>

theorem layer_listener_requests:
  assumes "initialized s"
  shows
    "(\<not> state ev \<longrightarrow> led_layer_listener_cb cfg env ev s = s)
     \<and> (state ev \<longrightarrow>
          led_layer_listener_cb cfg env ev s =
            put_all (spec_layer_requests cfg (unat (zmk_keymap_highest_layer_active env))) s
          \<and> length (spec_layer_requests cfg (unat (zmk_keymap_highest_layer_active env))) =
              unat (zmk_keymap_highest_layer_active env)
          \<and> (length (led_msgq s) + unat (zmk_keymap_highest_layer_active env) \<le> 16 \<longrightarrow>
               led_msgq (led_layer_listener_cb cfg env ev s) =
                 led_msgq s @
                   spec_layer_requests cfg (unat (zmk_keymap_highest_layer_active env)))
          \<and> (zmk_keymap_highest_layer_active env = 0 \<longrightarrow>
               led_layer_listener_cb cfg env ev s = s))
     \<and> (0 \<le> CONFIG_RGBLED_WIDGET_LAYER_BLINK_MS cfg
          \<and> CONFIG_RGBLED_WIDGET_LAYER_BLINK_MS cfg < 65536 \<longrightarrow>
        (\<forall>b \<in> set (butlast (spec_layer_requests cfg n)).
           rate b = BLINK_FRANTIC
           \<and> uint (sleep_ms b) = CONFIG_RGBLED_WIDGET_LAYER_BLINK_MS cfg))
     \<and> (n \<noteq> 0 \<longrightarrow>
          rate (last (spec_layer_requests cfg n)) = BLINK_MEDIUM
          \<and> sleep_ms (last (spec_layer_requests cfg n)) = 0)"
proof -
  have main: "(\<not> state ev \<longrightarrow> led_layer_listener_cb cfg env ev s = s)
     \<and> (state ev \<longrightarrow>
          led_layer_listener_cb cfg env ev s =
            put_all (spec_layer_requests cfg (unat (zmk_keymap_highest_layer_active env))) s
          \<and> length (spec_layer_requests cfg (unat (zmk_keymap_highest_layer_active env))) =
              unat (zmk_keymap_highest_layer_active env)
          \<and> (length (led_msgq s) + unat (zmk_keymap_highest_layer_active env) \<le> 16 \<longrightarrow>
               led_msgq (led_layer_listener_cb cfg env ev s) =
                 led_msgq s @
                   spec_layer_requests cfg (unat (zmk_keymap_highest_layer_active env)))
          \<and> (zmk_keymap_highest_layer_active env = 0 \<longrightarrow>
               led_layer_listener_cb cfg env ev s = s))"
  proof (cases "zmk_keymap_highest_layer_active env = 0")
    case True
    with assms show ?thesis
      by (simp add: layer_listener_put_all spec_layer_requests_def put_all_Nil)
  next
    case False
    with assms show ?thesis
      by (simp add: layer_listener_put_all length_spec_layer_requests put_all_room)
  qed
  have gaps: "0 \<le> CONFIG_RGBLED_WIDGET_LAYER_BLINK_MS cfg
          \<and> CONFIG_RGBLED_WIDGET_LAYER_BLINK_MS cfg < 65536 \<longrightarrow>
        (\<forall>b \<in> set (butlast (spec_layer_requests cfg n)).
           rate b = BLINK_FRANTIC
           \<and> uint (sleep_ms b) = CONFIG_RGBLED_WIDGET_LAYER_BLINK_MS cfg)"
    using spec_layer_requests_gaps [of cfg _ n] by blast
  have final: "n \<noteq> 0 \<longrightarrow>
          rate (last (spec_layer_requests cfg n)) = BLINK_MEDIUM
          \<and> sleep_ms (last (spec_layer_requests cfg n)) = 0"
    using spec_layer_requests_last [of n cfg] by blast
  from main gaps final show ?thesis
    by blast
qed

theorem layer_listener_requests_witness:
  "initialized ready_state
   \<and> led_layer_listener_cb example_config example_env \<lparr>layer = 3, state = False\<rparr> ready_state
       = ready_state
   \<and> led_msgq (led_layer_listener_cb example_config example_env \<lparr>layer = 3, state = True\<rparr>
        ready_state) =
       [\<lparr>rate = BLINK_FRANTIC, duration_ms = 100, first_item = False, sleep_ms = 100\<rparr>,
        \<lparr>rate = BLINK_FRANTIC, duration_ms = 100, first_item = False, sleep_ms = 100\<rparr>,
        \<lparr>rate = BLINK_MEDIUM, duration_ms = 100, first_item = False, sleep_ms = 0\<rparr>]"
proof -
  have h: "initialized ready_state"
    by (simp add: ready_state_def boot_state_def)
  have n: "unat (zmk_keymap_highest_layer_active example_env) = 3"
    by (simp add: example_env_def)
  have a: "led_layer_listener_cb example_config example_env \<lparr>layer = 3, state = False\<rparr>
             ready_state = ready_state"
    using layer_listener_requests [OF h, of "\<lparr>layer = 3, state = False\<rparr>" example_config
        example_env, THEN conjunct1]
    by simp
  have "led_msgq (led_layer_listener_cb example_config example_env \<lparr>layer = 3, state = True\<rparr>
          ready_state) = led_msgq ready_state @ spec_layer_requests example_config 3"
  proof -
    have "length (led_msgq ready_state) + 3 \<le> 16"
      by (simp add: ready_state_def boot_state_def)
    then show ?thesis
      using layer_listener_requests [OF h, of "\<lparr>layer = 3, state = True\<rparr>" example_config
          example_env, THEN conjunct2, THEN conjunct1]
      by (simp add: n put_all_room length_spec_layer_requests)
  qed
  then show ?thesis
    using h a
    by (simp add: spec_layer_requests_def example_config_def ready_state_def boot_state_def
        numeral_3_eq_3)
qed

text \<open>
  Claim C8. However events, the boot thread and renderer passes follow one another from
  the boot state, the queue never holds more than 16 items. A put on a queue of 16 items
  returns at once with \<open>False\<close> and the state, hence the queue and its order, unchanged;
  the item is not stored. With fewer than 16 items the put appends the item.
\<close>

theorem full_queue_rejects_put:
  "length (led_msgq (foldl (step cfg) boot_state acts)) \<le> 16
   \<and> (length (led_msgq s) = 16 \<longrightarrow> k_msgq_put x s = (False, s))
   \<and> (length (led_msgq s) < 16 \<longrightarrow>
        k_msgq_put x s = (True, s\<lparr>led_msgq := led_msgq s @ [x]\<rparr>))"
  by (simp add: run_bounded) (simp add: k_msgq_put_def led_msgq_max_msgs_def)

theorem full_queue_rejects_put_witness:
  "length (led_msgq full_state) = 16
   \<and> k_msgq_put \<lparr>rate = BLINK_SLOW, duration_ms = 1000, first_item = False, sleep_ms = 0\<rparr>
        full_state = (False, full_state)
   \<and> length (led_msgq ready_state) < 16
   \<and> k_msgq_put \<lparr>rate = BLINK_SLOW, duration_ms = 1000, first_item = False, sleep_ms = 0\<rparr>
        ready_state =
       (True, ready_state\<lparr>led_msgq :=
          [\<lparr>rate = BLINK_SLOW, duration_ms = 1000, first_item = False, sleep_ms = 0\<rparr>]\<rparr>)"
proof -
  have f: "length (led_msgq full_state) = 16"
    by (simp add: full_state_def)
  have r: "length (led_msgq ready_state) < 16" "led_msgq ready_state = []"
    by (simp_all add: ready_state_def boot_state_def)
  show ?thesis
    using f r
      full_queue_rejects_put [of example_config "[]" full_state
        "\<lparr>rate = BLINK_SLOW, duration_ms = 1000, first_item = False, sleep_ms = 0\<rparr>"]
      full_queue_rejects_put [of example_config "[]" ready_state
        "\<lparr>rate = BLINK_SLOW, duration_ms = 1000, first_item = False, sleep_ms = 0\<rparr>"]
    by simp
qed

text \<open>
  Claim C9. A pass of the renderer's loop takes the oldest item, renders its rate and
  then sleeps for the item's \<open>sleep_ms\<close> when that is not zero and for the configured
  interval when it is. Over a whole queue the calls come item by item: rendering, then
  that sleep, before anything of the next item.
\<close>

theorem renderer_gap:
  assumes "led_msgq s = b # q"
  shows
    "led_process_iteration cfg s =
       Some (k_sleep (if sleep_ms b \<noteq> 0 then uint (sleep_ms b)
                      else CONFIG_RGBLED_WIDGET_INTERVAL_MS cfg)
               (led_do_blink (rate b) (s\<lparr>led_msgq := q\<rparr>)))
     \<and> new_calls s (led_process_thread (length (b # q)) cfg s) =
         concat (map (\<lambda>b. spec_render (rate b) @
                            [K_SLEEP (if sleep_ms b \<noteq> 0 then uint (sleep_ms b)
                                      else CONFIG_RGBLED_WIDGET_INTERVAL_MS cfg)])
                   (b # q))"
  using assms
  by (simp add: led_process_iteration_Cons led_process_thread_drains new_calls_def
      del: led_process_thread.simps)
    (simp add: spec_gap_def)

theorem renderer_gap_witness:
  "led_process_iteration example_config
       (ready_state\<lparr>led_msgq :=
          [\<lparr>rate = BLINK_FRANTIC, duration_ms = 100, first_item = False, sleep_ms = 100\<rparr>,
           \<lparr>rate = BLINK_MEDIUM, duration_ms = 100, first_item = False, sleep_ms = 0\<rparr>]\<rparr>) =
     Some \<lparr>initialized = True,
           led_msgq = [\<lparr>rate = BLINK_MEDIUM, duration_ms = 100, first_item = False, sleep_ms = 0\<rparr>],
           led = False,
           calls = [LED_ON, K_SLEEP 20, LED_OFF, K_SLEEP 20, K_SLEEP 100]\<rparr>
   \<and> calls (led_process_thread (Suc (Suc 0)) example_config
       (ready_state\<lparr>led_msgq :=
          [\<lparr>rate = BLINK_FRANTIC, duration_ms = 100, first_item = False, sleep_ms = 100\<rparr>,
           \<lparr>rate = BLINK_MEDIUM, duration_ms = 100, first_item = False, sleep_ms = 0\<rparr>]\<rparr>)) =
       [LED_ON, K_SLEEP 20, LED_OFF, K_SLEEP 20, K_SLEEP 100,
        LED_ON, K_SLEEP 150, LED_OFF, K_SLEEP 150, K_SLEEP 500]"
proof -
  let ?b = "\<lparr>rate = BLINK_FRANTIC, duration_ms = 100, first_item = False, sleep_ms = 100\<rparr>"
  let ?c = "\<lparr>rate = BLINK_MEDIUM, duration_ms = 100, first_item = False, sleep_ms = 0\<rparr>"
  let ?s = "ready_state\<lparr>led_msgq := [?b, ?c]\<rparr>"
  have q: "led_msgq ?s = ?b # [?c]"
    by simp
  have e: "calls ?s = []"
    by (simp add: ready_state_def boot_state_def)
  note t = renderer_gap [OF q, of example_config]
  have "led_process_iteration example_config ?s =
     Some \<lparr>initialized = True, led_msgq = [?c], led = False,
           calls = [LED_ON, K_SLEEP 20, LED_OFF, K_SLEEP 20, K_SLEEP 100]\<rparr>"
    unfolding t [THEN conjunct1]
    by (simp add: led_do_blink_render spec_render_def k_sleep_def ready_state_def boot_state_def)
  moreover have "calls (led_process_thread (Suc (Suc 0)) example_config ?s) =
       [LED_ON, K_SLEEP 20, LED_OFF, K_SLEEP 20, K_SLEEP 100,
        LED_ON, K_SLEEP 150, LED_OFF, K_SLEEP 150, K_SLEEP 500]"
    using t [THEN conjunct2]
    by (simp add: new_calls_def e spec_render_def example_config_def
        del: led_process_thread.simps)
  ultimately show ?thesis by simp
qed

text \<open>
  Claim C10. The item that \<open>output_blink\<close> puts, for the connectivity listener and at
  boot alike, and the item the battery listener puts have \<open>sleep_ms\<close> 0 and
  \<open>first_item\<close> false, and the renderer sleeps the configured interval after either. No
  item of the layer listener has \<open>first_item\<close> true. The item of the boot battery block
  has \<open>first_item\<close> true.
\<close>

theorem only_boot_battery_item_is_first:
  "(let conn = \<lparr>rate = spec_connectivity_rate cfg env,
                 duration_ms = word_of_int (CONFIG_RGBLED_WIDGET_OUTPUT_BLINK_MS cfg),
                 first_item = False, sleep_ms = 0\<rparr>;
        warn = \<lparr>rate = BLINK_FAST,
                 duration_ms = word_of_int (CONFIG_RGBLED_WIDGET_BATTERY_BLINK_MS cfg),
                 first_item = False, sleep_ms = 0\<rparr>
    in output_blink cfg env s = snd (k_msgq_put conn s)
       \<and> led_output_listener_cb cfg env s =
           (if initialized s then snd (k_msgq_put conn s) else s)
       \<and> led_battery_listener_cb cfg bev s =
           (if initialized s \<and> 0 < state_of_charge bev
               \<and> uint (state_of_charge bev) \<le> CONFIG_RGBLED_WIDGET_BATTERY_LEVEL_CRITICAL cfg
            then snd (k_msgq_put warn s) else s)
       \<and> led_process_iteration cfg (t\<lparr>led_msgq := conn # q\<rparr>) =
           Some (k_sleep (CONFIG_RGBLED_WIDGET_INTERVAL_MS cfg)
                   (led_do_blink (rate conn) (t\<lparr>led_msgq := q\<rparr>)))
       \<and> led_process_iteration cfg (t\<lparr>led_msgq := warn # q\<rparr>) =
           Some (k_sleep (CONFIG_RGBLED_WIDGET_INTERVAL_MS cfg)
                   (led_do_blink (rate warn) (t\<lparr>led_msgq := q\<rparr>))))
   \<and> led_layer_listener_cb cfg env lev s =
       (if initialized s \<and> state lev
        then put_all (spec_layer_requests cfg (unat (zmk_keymap_highest_layer_active env))) s
        else s)
   \<and> (\<forall>b \<in> set (spec_layer_requests cfg n). \<not> first_item b)
   \<and> (\<exists>r. led_init_battery cfg env s =
          k_sleep (CONFIG_RGBLED_WIDGET_BATTERY_BLINK_MS cfg
                   + CONFIG_RGBLED_WIDGET_INTERVAL_MS cfg)
            (snd (k_msgq_put
               \<lparr>rate = r,
                duration_ms = word_of_int (CONFIG_RGBLED_WIDGET_BATTERY_BLINK_MS cfg),
                first_item = True, sleep_ms = 0\<rparr>
               (retry_sleeps (spec_retries (zmk_battery_state_of_charge env)) s))))"
proof -
  have "\<forall>b \<in> set (spec_layer_requests cfg n). \<not> first_item b"
    by (auto simp add: spec_layer_requests_def)
  moreover have "\<exists>r. led_init_battery cfg env s =
          k_sleep (CONFIG_RGBLED_WIDGET_BATTERY_BLINK_MS cfg
                   + CONFIG_RGBLED_WIDGET_INTERVAL_MS cfg)
            (snd (k_msgq_put
               \<lparr>rate = r,
                duration_ms = word_of_int (CONFIG_RGBLED_WIDGET_BATTERY_BLINK_MS cfg),
                first_item = True, sleep_ms = 0\<rparr>
               (retry_sleeps (spec_retries (zmk_battery_state_of_charge env)) s)))"
    unfolding led_init_battery_eq Let_def by (rule exI) (rule refl)
  ultimately show ?thesis
    unfolding Let_def
    by (simp add: output_blink_put led_output_listener_cb_def battery_listener_put
        layer_listener_put_all led_process_iteration_default_gap)
qed

theorem only_boot_battery_item_is_first_witness:
  "led_msgq (led_battery_listener_cb example_config \<lparr>state_of_charge = 3\<rparr>
      (led_output_listener_cb example_config example_env ready_state)) =
     [\<lparr>rate = BLINK_FAST, duration_ms = 1000, first_item = False, sleep_ms = 0\<rparr>,
      \<lparr>rate = BLINK_FAST, duration_ms = 2000, first_item = False, sleep_ms = 0\<rparr>]
   \<and> led_msgq (led_init_thread example_config example_env boot_state) =
     [\<lparr>rate = BLINK_FAST, duration_ms = 2000, first_item = True, sleep_ms = 0\<rparr>,
      \<lparr>rate = BLINK_FAST, duration_ms = 1000, first_item = False, sleep_ms = 0\<rparr>]"
proof -
  let ?s1 = "led_output_listener_cb example_config example_env ready_state"
  note a = only_boot_battery_item_is_first [where cfg = example_config and env = example_env
      and s = ready_state and bev = "\<lparr>state_of_charge = 3\<rparr>", unfolded Let_def]
  note b = only_boot_battery_item_is_first [where cfg = example_config and env = example_env
      and s = ?s1 and bev = "\<lparr>state_of_charge = 3\<rparr>", unfolded Let_def]
  have 1: "?s1 = ready_state\<lparr>led_msgq :=
      [\<lparr>rate = BLINK_FAST, duration_ms = 1000, first_item = False, sleep_ms = 0\<rparr>]\<rparr>"
    unfolding a [THEN conjunct1, THEN conjunct2, THEN conjunct1]
    by (simp add: ready_state_def boot_state_def k_msgq_put_def led_msgq_max_msgs_def
        spec_connectivity_rate_def example_config_def example_env_def)
  have 2: "led_msgq (led_battery_listener_cb example_config \<lparr>state_of_charge = 3\<rparr> ?s1) =
     [\<lparr>rate = BLINK_FAST, duration_ms = 1000, first_item = False, sleep_ms = 0\<rparr>,
      \<lparr>rate = BLINK_FAST, duration_ms = 2000, first_item = False, sleep_ms = 0\<rparr>]"
    unfolding b [THEN conjunct1, THEN conjunct2, THEN conjunct2, THEN conjunct1]
    unfolding 1
    by (simp add: ready_state_def boot_state_def k_msgq_put_def led_msgq_max_msgs_def
        example_config_def)
  have 3: "led_msgq (led_init_thread example_config example_env boot_state) =
     [\<lparr>rate = BLINK_FAST, duration_ms = 2000, first_item = True, sleep_ms = 0\<rparr>,
      \<lparr>rate = BLINK_FAST, duration_ms = 1000, first_item = False, sleep_ms = 0\<rparr>]"
    by (simp add: led_init_thread_def Let_def led_init_battery_eq spec_retries_example
        output_blink_put)
      (simp add: example_config_def example_env_def spec_connectivity_rate_def k_sleep_def
        k_msgq_put_def led_msgq_max_msgs_def retry_sleeps_def boot_state_def)
  from 2 3 show ?thesis by simp
qed

end
